theory Spec2Isabelle
  imports Complex_Main "HOL-Library.AList"
begin

section \<open>Data model\<close>

text \<open>
  The engine is written in TypeScript. Its \<^verbatim>\<open>number\<close> values are modelled as
  mathematical reals: the theorems below are about the exact arithmetic of the
  formulas, rounding of IEEE doubles is not modelled. A \<^verbatim>\<open>Date\<close> is modelled by
  the integer \<^verbatim>\<open>getTime()\<close> returns (milliseconds since the epoch). An optional
  field is an \<open>option\<close>. Where the source divides, the theorems state the
  hypotheses under which the divisor is not zero.
\<close>

datatype SourceCategory = EDITORIAL | SOCIAL | ECOMMERCE | MAGAZINE | BLOG

text \<open>\<^verbatim>\<open>SeedSource\<close> of data/sources/config.ts (the feed and scraping fields are
  not read by the engine and are left out).\<close>

record SeedSource =
  src_id :: string
  src_name :: string
  src_url :: string
  category :: SourceCategory
  weight :: real

text \<open>\<^verbatim>\<open>BrandMention\<close> of services/SourceDataService.ts.\<close>

record BrandMention =
  brandName :: string
  sourceId :: string
  url :: string
  context_m :: string
  timestamp :: int
  sentiment :: "real option"
  productName :: "string option"
  productCategory :: "string option"

text \<open>\<^verbatim>\<open>SourceConnection\<close> of services/NetworkExpansionService.ts.\<close>

datatype ConnectionType = Backlink | MentionLink | SocialLink | Related

record SourceConnection =
  conn_sourceId :: string
  targetId :: string
  connectionType :: ConnectionType
  strength :: real
  discoveredAt :: int

text \<open>\<^verbatim>\<open>ScoringParameters\<close>, \<^verbatim>\<open>BrandTrendScore\<close> and the state of the class
  \<^verbatim>\<open>ScoringAlgorithm\<close> of services/ScoringAlgorithm.ts.\<close>

record ScoringParameters =
  sourceWeightFactor :: real
  centralityFactor :: real
  sentimentFactor :: real
  recencyDecayDays :: real
  recencyFactor :: real
  frequencyFactor :: real
  productMentionBoost :: real
  contextDetailBoost :: real

record ScoreComponents =
  sourceAuthority :: real
  recency :: real
  frequency :: real
  sentiment_c :: real
  context_c :: real

record BrandTrendScore =
  score_brandName :: string
  totalScore :: real
  scoreComponents :: ScoreComponents
  confidence :: real
  mentions :: nat
  lastMentionDate :: int

record ScoringAlgorithm =
  parameters :: ScoringParameters
  sourceCentrality :: "string \<rightharpoonup> real"

section \<open>Seed sources (data/sources/config.ts)\<close>

definition SEED_SOURCES :: "SeedSource list" where
  "SEED_SOURCES =
    [\<lparr>src_id = ''highsnobiety'', src_name = ''Highsnobiety'',
        src_url = ''https://www.highsnobiety.com'', category = EDITORIAL, weight = 30\<rparr>,
     \<lparr>src_id = ''ssense'', src_name = ''SSENSE Editorial'',
        src_url = ''https://www.ssense.com/en-us/editorial'', category = EDITORIAL, weight = 30\<rparr>,
     \<lparr>src_id = ''hypebeast'', src_name = ''Hypebeast Fashion'',
        src_url = ''https://hypebeast.com/fashion'', category = EDITORIAL, weight = 15\<rparr>,
     \<lparr>src_id = ''dazed'', src_name = ''Dazed & Confused'',
        src_url = ''https://www.dazeddigital.com/fashion'', category = MAGAZINE, weight = 10\<rparr>,
     \<lparr>src_id = ''i-d'', src_name = ''i-D'',
        src_url = ''https://i-d.vice.com/en_uk/topic/fashion'', category = MAGAZINE, weight = 5\<rparr>,
     \<lparr>src_id = ''10magazine'', src_name = ''10 Magazine'',
        src_url = ''https://www.10magazine.com'', category = MAGAZINE, weight = 10\<rparr>]"

section \<open>Scoring engine (services/ScoringAlgorithm.ts)\<close>

text \<open>The default parameters of the class.\<close>

definition defaultParameters :: ScoringParameters where
  "defaultParameters =
    \<lparr>sourceWeightFactor = 0.5, centralityFactor = 0.3, sentimentFactor = 0.4,
     recencyDecayDays = 14, recencyFactor = 0.6, frequencyFactor = 0.5,
     productMentionBoost = 1.3, contextDetailBoost = 1.2\<rparr>"

text \<open>Milliseconds in a day: \<^verbatim>\<open>1000 * 60 * 60 * 24\<close>.\<close>

definition msPerDay :: real where
  "msPerDay = 1000 * 60 * 60 * 24"

text \<open>
  \<^verbatim>\<open>calculateSourceCentrality\<close>. The two \<^verbatim>\<open>Map\<close>s of the source are maps here;
  the first loop initialises them on the seed sources, the second walks the
  connection log, the third writes one centrality per seed source. The seed
  list and the connection log (read from the network expansion service) are
  parameters.
\<close>

definition initIncoming :: "SeedSource list \<Rightarrow> (string \<rightharpoonup> nat) \<times> (string \<rightharpoonup> real list)" where
  "initIncoming seeds =
     fold (\<lambda>source (inc, strs). (inc(src_id source \<mapsto> 0), strs(src_id source \<mapsto> [])))
       seeds (Map.empty, Map.empty)"

definition countConnection ::
  "SourceConnection \<Rightarrow> (string \<rightharpoonup> nat) \<times> (string \<rightharpoonup> real list)
     \<Rightarrow> (string \<rightharpoonup> nat) \<times> (string \<rightharpoonup> real list)" where
  "countConnection connection acc =
     (let inc = fst acc; strs = snd acc;
          currentCount = (case inc (targetId connection) of None \<Rightarrow> 0 | Some n \<Rightarrow> n);
          strengths = (case strs (targetId connection) of None \<Rightarrow> [] | Some l \<Rightarrow> l)
      in (inc(targetId connection \<mapsto> currentCount + 1),
          strs(targetId connection \<mapsto> strengths @ [strength connection])))"

definition centralityScore :: "nat \<Rightarrow> (string \<rightharpoonup> nat) \<times> (string \<rightharpoonup> real list) \<Rightarrow> string \<Rightarrow> real" where
  "centralityScore n acc sid =
     (let incomingCount = (case fst acc sid of None \<Rightarrow> 0 | Some k \<Rightarrow> k);
          strengths = (case snd acc sid of None \<Rightarrow> [] | Some l \<Rightarrow> l);
          maxPossibleConnections = int n - 1;
          connectionRatio = real incomingCount / real_of_int maxPossibleConnections;
          avgStrength = (if length strengths > 0
                         then fold (\<lambda>strength sum. sum + strength) strengths 0 / real (length strengths)
                         else 0)
      in connectionRatio * 50 + avgStrength * 0.5)"

definition calculateSourceCentrality ::
  "SeedSource list \<Rightarrow> SourceConnection list \<Rightarrow> ScoringAlgorithm \<Rightarrow> ScoringAlgorithm" where
  "calculateSourceCentrality seeds connections alg =
     (let acc = fold countConnection connections (initIncoming seeds)
      in alg\<lparr>sourceCentrality :=
           fold (\<lambda>source cen. cen(src_id source \<mapsto> centralityScore (length seeds) acc (src_id source)))
             seeds (sourceCentrality alg)\<rparr>)"

text \<open>\<^verbatim>\<open>getEffectiveSourceWeight\<close>: an id that \<^verbatim>\<open>find\<close> does not locate gives 0.\<close>

definition getEffectiveSourceWeight :: "SeedSource list \<Rightarrow> ScoringAlgorithm \<Rightarrow> string \<Rightarrow> real" where
  "getEffectiveSourceWeight seeds alg sid =
     (case List.find (\<lambda>s. src_id s = sid) seeds of
        None \<Rightarrow> 0
      | Some source \<Rightarrow>
          (let baseWeight = weight source;
               centrality = (case sourceCentrality alg sid of None \<Rightarrow> 0 | Some c \<Rightarrow> c)
           in baseWeight * sourceWeightFactor (parameters alg)
              + centrality * centralityFactor (parameters alg)))"

text \<open>\<^verbatim>\<open>calculateRecencyScore\<close>: the clock reading \<open>now\<close> (\<^verbatim>\<open>new Date()\<close>) is an
  argument; one call of the scoring operation is taken to read one time.\<close>

definition calculateRecencyScore :: "ScoringAlgorithm \<Rightarrow> int \<Rightarrow> int \<Rightarrow> real" where
  "calculateRecencyScore alg now mentionDate =
     (let daysSinceMention = real_of_int (now - mentionDate) / msPerDay;
          decay = (1/2) powr (daysSinceMention / recencyDecayDays (parameters alg))
      in decay * 100)"

text \<open>Newest first: the comparator \<^verbatim>\<open>b.timestamp - a.timestamp\<close> of a stable sort.\<close>

definition sortNewestFirst :: "BrandMention list \<Rightarrow> BrandMention list" where
  "sortNewestFirst ms = sort_key (\<lambda>m. - timestamp m) ms"

definition calculateFrequencyScore :: "BrandMention list \<Rightarrow> real" where
  "calculateFrequencyScore ms =
     (if length ms = 0 then 0
      else
        (let sortedMentions = sortNewestFirst ms;
             newest = timestamp (hd sortedMentions);
             oldest = timestamp (last sortedMentions);
             daysInRange = real_of_int (newest - oldest) / msPerDay
         in if daysInRange < 1 then min (real (length ms) * 20) 100
            else (let mentionsPerDay = real (length ms) / max daysInRange 1
                  in min (mentionsPerDay * 50) 100)))"

text \<open>The body of the \<^verbatim>\<open>forEach\<close> of \<^verbatim>\<open>calculateSentimentScore\<close>; the accumulator
  is the pair (totalWeight, weightedSentiment).\<close>

definition sentimentStep ::
  "SeedSource list \<Rightarrow> ScoringAlgorithm \<Rightarrow> int \<Rightarrow> BrandMention \<Rightarrow> real \<times> real \<Rightarrow> real \<times> real" where
  "sentimentStep seeds alg now mention acc =
     (case sentiment mention of
        None \<Rightarrow> acc
      | Some s \<Rightarrow>
          (let sourceWeight = getEffectiveSourceWeight seeds alg (sourceId mention);
               recencyWeight = calculateRecencyScore alg now (timestamp mention) / 100;
               w = sourceWeight * recencyWeight
           in (fst acc + w, snd acc + s * w)))"

definition calculateSentimentScore ::
  "SeedSource list \<Rightarrow> ScoringAlgorithm \<Rightarrow> int \<Rightarrow> BrandMention list \<Rightarrow> real" where
  "calculateSentimentScore seeds alg now ms =
     (if length ms = 0 then 50
      else
        (let acc = fold (sentimentStep seeds alg now) ms (0, 0);
             totalWeight = fst acc; weightedSentiment = snd acc
         in if totalWeight = 0 then 50
            else (let avgSentiment = weightedSentiment / totalWeight
                  in (avgSentiment + 1) * 50)))"

text \<open>The per-mention context score: \<^verbatim>\<open>if (mention.productName)\<close> is false for
  an absent and for an empty name.\<close>

definition mentionContextScore :: "ScoringAlgorithm \<Rightarrow> BrandMention \<Rightarrow> real" where
  "mentionContextScore alg mention =
     (let c0 = 50;
          c1 = (if productName mention \<noteq> None \<and> productName mention \<noteq> Some []
                then c0 * productMentionBoost (parameters alg) else c0);
          c2 = (if context_m mention \<noteq> [] \<and> length (context_m mention) > 50
                then c1 * contextDetailBoost (parameters alg) else c1)
      in c2)"

definition calculateContextScore :: "ScoringAlgorithm \<Rightarrow> BrandMention list \<Rightarrow> real" where
  "calculateContextScore alg ms =
     (if length ms = 0 then 0
      else
        (let total = fold (\<lambda>mention t. t + mentionContextScore alg mention) ms 0
         in min (total / real (length ms)) 100))"

text \<open>\<^verbatim>\<open>new Set(mentions.map(m => m.sourceId)).size\<close> is the number of distinct ids.\<close>

definition calculateConfidenceScore :: "BrandMention list \<Rightarrow> real" where
  "calculateConfidenceScore ms =
     (if length ms = 0 then 0
      else
        (let uniqueSources = length (remdups (map sourceId ms));
             mentionConfidence = min (real (length ms) / 10) 1 * 50;
             diversityConfidence = min (real uniqueSources / 3) 1 * 50
         in mentionConfidence + diversityConfidence))"

definition calculateBrandTrendScore ::
  "SeedSource list \<Rightarrow> ScoringAlgorithm \<Rightarrow> int \<Rightarrow> string \<Rightarrow> BrandMention list \<Rightarrow> BrandTrendScore" where
  "calculateBrandTrendScore seeds alg now brand ms =
     (if length ms = 0 then
        \<lparr>score_brandName = brand, totalScore = 0,
         scoreComponents = \<lparr>sourceAuthority = 0, recency = 0, frequency = 0,
                            sentiment_c = 50, context_c = 0\<rparr>,
         confidence = 0, mentions = 0, lastMentionDate = now\<rparr>
      else
        (let sortedMentions = sortNewestFirst ms;
             authoritySum = fold (\<lambda>mention a. a + getEffectiveSourceWeight seeds alg (sourceId mention)) ms 0;
             sourceAuthorityScore = min (authoritySum / real (length ms)) 100;
             recencyScore = calculateRecencyScore alg now (timestamp (hd sortedMentions));
             frequencyScore = calculateFrequencyScore ms;
             sentimentScore = calculateSentimentScore seeds alg now ms;
             contextScore = calculateContextScore alg ms;
             p = parameters alg;
             total =
               (sourceAuthorityScore * sourceWeightFactor p
                + recencyScore * recencyFactor p
                + frequencyScore * frequencyFactor p
                + sentimentScore * sentimentFactor p
                + contextScore * (1 - sentimentFactor p))
               / (sourceWeightFactor p + recencyFactor p + frequencyFactor p
                  + sentimentFactor p + (1 - sentimentFactor p))
         in \<lparr>score_brandName = brand, totalScore = total,
              scoreComponents = \<lparr>sourceAuthority = sourceAuthorityScore, recency = recencyScore,
                                 frequency = frequencyScore, sentiment_c = sentimentScore,
                                 context_c = contextScore\<rparr>,
              confidence = calculateConfidenceScore ms,
              mentions = length ms,
              lastMentionDate = timestamp (hd sortedMentions)\<rparr>))"










definition initialAlgorithm :: ScoringAlgorithm where
  "initialAlgorithm = \<lparr>parameters = defaultParameters, sourceCentrality = Map.empty\<rparr>"


text \<open>The centrality as the specification words it: the number of connections
  whose target is the source, over the number of sources less one, times 50,
  plus half the mean strength of these connections (0 if there are none).\<close>

definition incoming :: "SourceConnection list \<Rightarrow> string \<Rightarrow> SourceConnection list" where
  "incoming conns sid = filter (\<lambda>c. targetId c = sid) conns"

definition centrality_spec :: "nat \<Rightarrow> SourceConnection list \<Rightarrow> string \<Rightarrow> real" where
  "centrality_spec n conns sid =
     (let k = length (incoming conns sid);
          avgStrength = (if k = 0 then 0 else sum_list (map strength (incoming conns sid)) / real k)
      in (real k / (real n - 1)) * 50 + avgStrength * 0.5)"

section \<open>Network expansion (services/NetworkExpansionService.ts)\<close>

text \<open>
  Only the connection log of the service is modelled. \<^verbatim>\<open>Math.random()\<close> is a
  stream \<open>rnd\<close> of numbers read at a position that the state carries. The
  results are sums so that a raised error would be a value; the source raises
  none.
\<close>

datatype error = ValidationError | NotFoundError

record NetworkExpansionService =
  sourceConnections :: "SourceConnection list"

text \<open>The body of the inner loop of \<^verbatim>\<open>analyzeBacklinks\<close> for the pair \<open>(i, j)\<close>.\<close>

definition backlinkPair ::
  "SeedSource list \<Rightarrow> (nat \<Rightarrow> real) \<Rightarrow> int \<Rightarrow> nat \<Rightarrow> nat
     \<Rightarrow> nat \<times> NetworkExpansionService \<Rightarrow> error + nat \<times> NetworkExpansionService" where
  "backlinkPair seeds rnd now i j st =
     (if i = j then Inr st
      else if rnd (fst st) > 0.4 then Inr (fst st + 1, snd st)
      else
        (let source = seeds ! i; target = seeds ! j;
             connection =
               \<lparr>conn_sourceId = src_id source, targetId = src_id target,
                connectionType = Backlink,
                strength = real_of_int \<lfloor>rnd (fst st + 1) * 80\<rfloor> + 20,
                discoveredAt = now\<rparr>
         in Inr (fst st + 2,
                 (snd st)\<lparr>sourceConnections := sourceConnections (snd st) @ [connection]\<rparr>)))"

definition analyzeBacklinks ::
  "SeedSource list \<Rightarrow> (nat \<Rightarrow> real) \<Rightarrow> int
     \<Rightarrow> nat \<times> NetworkExpansionService \<Rightarrow> error + nat \<times> NetworkExpansionService" where
  "analyzeBacklinks seeds rnd now st =
     fold (\<lambda>i. fold (\<lambda>j r. case r of Inl e \<Rightarrow> Inl e
                                | Inr s \<Rightarrow> backlinkPair seeds rnd now i j s)
                  [0..<length seeds])
       [0..<length seeds] (Inr st)"

text \<open>The invariant of the two loops: no error, the log \<open>lg\<close> the run started
  from is a prefix of the log, and no connection after it joins a source to
  itself.\<close>

definition logExtended :: "SourceConnection list \<Rightarrow> error + nat \<times> NetworkExpansionService \<Rightarrow> bool" where
  "logExtended lg r =
     (case r of
        Inl e \<Rightarrow> False
      | Inr s \<Rightarrow>
          take (length lg) (sourceConnections (snd s)) = lg
          \<and> list_all (\<lambda>c. conn_sourceId c \<noteq> targetId c)
                (drop (length lg) (sourceConnections (snd s))))"

section \<open>Feedback loop (services/FeedbackLoopService.ts)\<close>

record BrandFeedback =
  fb_brandName :: string
  userRating :: real
  fb_comment :: "string option"
  fb_timestamp :: int

record SourcePerformance =
  perf_sourceId :: string
  predictiveAccuracy :: real
  trendLeadTime :: real
  userFeedbackScore :: real
  falsePositiveRate :: real
  overallScore :: real

text \<open>The \<^verbatim>\<open>Map\<close> of performance records keeps its insertion order (it is
  listed and sorted), so it is an association list.\<close>

record FeedbackLoopService =
  brandFeedback :: "BrandFeedback list"
  sourcePerformance :: "(string \<times> SourcePerformance) list"

text \<open>The singletons the feedback service reads and writes: itself, the scoring
  algorithm and the mention log of the source data service.\<close>

record World =
  feedbackLoopService :: FeedbackLoopService
  scoringAlgorithm :: ScoringAlgorithm
  brandMentions :: "BrandMention list"






text \<open>\<^verbatim>\<open>updateParameters\<close>: the one caller passes a copy of all eight fields, so
  the spread replaces the record.\<close>

definition updateParameters :: "ScoringParameters \<Rightarrow> ScoringAlgorithm \<Rightarrow> ScoringAlgorithm" where
  "updateParameters newParameters alg = alg\<lparr>parameters := newParameters\<rparr>"

definition adjustScoringBasedOnFeedback :: "int \<Rightarrow> World \<Rightarrow> World" where
  "adjustScoringBasedOnFeedback now w =
     (let fb = brandFeedback (feedbackLoopService w) in
      if length fb < 5 then w
      else
        (let currentParams = parameters (scoringAlgorithm w);
             feedbackCorrect = length (filter (\<lambda>f. userRating f \<ge> 4) fb);
             feedbackIncorrect = length (filter (\<lambda>f. userRating f \<le> 2) fb);
             totalFeedback = feedbackCorrect + feedbackIncorrect
         in if totalFeedback = 0 then w
            else
              (let accuracy = real feedbackCorrect / real totalFeedback in
               if accuracy > 0.8 then w
               else
                 (let sortedSources =
                        sort_key (\<lambda>p. - overallScore p)
                          (map snd (sourcePerformance (feedbackLoopService w)));
                      newParams1 =
                        (if length sortedSources > 0
                            \<and> overallScore (hd sortedSources) > 70
                            \<and> overallScore (hd sortedSources) - overallScore (last sortedSources) > 20
                         then currentParams\<lparr>sourceWeightFactor :=
                                min (sourceWeightFactor currentParams + 0.05) 0.7\<rparr>
                         else currentParams\<lparr>sourceWeightFactor :=
                                max (sourceWeightFactor currentParams - 0.05) 0.3\<rparr>);
                      recentFeedback =
                        filter (\<lambda>f. real_of_int (now - fb_timestamp f) / msPerDay < 7) fb;
                      newParams2 =
                        (if length recentFeedback > 0 then
                           (let recentCorrect = length (filter (\<lambda>f. userRating f \<ge> 4) recentFeedback);
                                recentAccuracy = real recentCorrect / real (length recentFeedback)
                            in if recentAccuracy > accuracy
                               then newParams1\<lparr>recencyFactor :=
                                      min (recencyFactor currentParams + 0.05) 0.8\<rparr>
                               else newParams1\<lparr>recencyFactor :=
                                      max (recencyFactor currentParams - 0.05) 0.3\<rparr>)
                         else newParams1)
                  in w\<lparr>scoringAlgorithm := updateParameters newParams2 (scoringAlgorithm w)\<rparr>))))"


















section \<open>Concrete runs\<close>




text \<open>A random stream that always yields 0.3: every pair of different sources
  is connected, with strength 44. The log after two runs of
  \<^verbatim>\<open>analyzeBacklinks\<close> on the seed sources (the service is a singleton and the
  log is never cleared, so a second run appends to the first).\<close>

definition exampleRandom :: "nat \<Rightarrow> real" where
  "exampleRandom k = 3 / 10"

definition twoRuns :: "SourceConnection list" where
  "twoRuns =
     (case analyzeBacklinks SEED_SOURCES exampleRandom 0 (0, \<lparr>sourceConnections = []\<rparr>) of
        Inl e \<Rightarrow> []
      | Inr s1 \<Rightarrow>
          (case analyzeBacklinks SEED_SOURCES exampleRandom 1 s1 of
             Inl e \<Rightarrow> []
           | Inr s2 \<Rightarrow> sourceConnections (snd s2)))"






section \<open>Lemmas about the scoring engine\<close>


































section \<open>Lemmas about the centrality computation\<close>

lemma initIncoming_fold:
  "fold (\<lambda>source (inc, strs). (inc(src_id source \<mapsto> 0), strs(src_id source \<mapsto> []))) seeds (a, b)
   = (\<lambda>sid. if sid \<in> src_id ` set seeds then Some 0 else a sid,
      \<lambda>sid. if sid \<in> src_id ` set seeds then Some [] else b sid)"
  by (induction seeds arbitrary: a b) (auto simp: fun_eq_iff)

lemma initIncoming_lookup:
  "(case fst (initIncoming seeds) sid of None \<Rightarrow> 0 | Some k \<Rightarrow> k) = 0"
  "(case snd (initIncoming seeds) sid of None \<Rightarrow> [] | Some l \<Rightarrow> l) = []"
  by (simp_all add: initIncoming_def initIncoming_fold)

lemma countConnection_fold:
  "(case fst (fold countConnection conns acc) sid of None \<Rightarrow> 0 | Some k \<Rightarrow> k)
     = (case fst acc sid of None \<Rightarrow> 0 | Some k \<Rightarrow> k)
       + length (filter (\<lambda>c. targetId c = sid) conns)"
  "(case snd (fold countConnection conns acc) sid of None \<Rightarrow> [] | Some l \<Rightarrow> l)
     = (case snd acc sid of None \<Rightarrow> [] | Some l \<Rightarrow> l)
       @ map strength (filter (\<lambda>c. targetId c = sid) conns)"
proof (induction conns arbitrary: acc)
  case Nil
  { case 1 show ?case by simp
  next
    case 2 show ?case by simp }
next
  case (Cons c conns)
  { case 1
    show ?case by (simp add: Cons.IH(1)) (simp add: countConnection_def Let_def)
  next
    case 2
    show ?case by (simp add: Cons.IH(2)) (simp add: countConnection_def Let_def) }
qed

lemma fold_plus_sum_list: "fold (\<lambda>x (s::real). s + x) xs a = a + sum_list xs"
  by (induction xs arbitrary: a) simp_all

lemma centralityScore_spec:
  "centralityScore n (fold countConnection conns (initIncoming seeds)) sid = centrality_spec n conns sid"
  unfolding centralityScore_def centrality_spec_def Let_def
    countConnection_fold initIncoming_lookup incoming_def
  by (simp add: fold_plus_sum_list)

lemma centrality_fold:
  "fold (\<lambda>source cen. cen(src_id source \<mapsto> g (src_id source))) seeds cen0
   = (\<lambda>sid. if sid \<in> src_id ` set seeds then Some (g sid) else cen0 sid)"
  by (induction seeds arbitrary: cen0) (auto simp: fun_eq_iff)

lemma calculateSourceCentrality_lookup:
  "sourceCentrality (calculateSourceCentrality seeds conns alg) sid
   = (if sid \<in> src_id ` set seeds then Some (centrality_spec (length seeds) conns sid)
      else sourceCentrality alg sid)"
  by (simp add: calculateSourceCentrality_def Let_def centrality_fold centralityScore_spec)

lemma sum_list_upper:
  "\<forall>x \<in> set xs. x \<le> (c::real) \<Longrightarrow> sum_list xs \<le> c * real (length xs)"
  by (induction xs) (auto simp: algebra_simps)

lemma centrality_spec_range:
  assumes n: "2 \<le> n"
    and k: "length (incoming conns sid) \<le> n - 1"
    and s: "\<forall>c \<in> set conns. 0 \<le> strength c \<and> strength c \<le> 100"
  shows "0 \<le> centrality_spec n conns sid \<and> centrality_spec n conns sid \<le> 100"
proof -
  define xs where "xs = map strength (incoming conns sid)"
  have r: "\<forall>x \<in> set xs. 0 \<le> x \<and> x \<le> 100"
    using s by (auto simp: xs_def incoming_def)
  have lo: "0 \<le> sum_list xs" using r by (intro sum_list_nonneg) simp
  have hi: "sum_list xs \<le> 100 * real (length xs)"
    using r by (intro sum_list_upper) simp
  define avg where "avg = (if length xs = 0 then 0 else sum_list xs / real (length xs))"
  have avg: "0 \<le> avg \<and> avg \<le> 100"
    using lo hi by (auto simp: avg_def pos_divide_le_eq)
  define q where "q = real (length xs) / (real n - 1)"
  have "real (length xs) \<le> real n - 1" using k n by (simp add: xs_def of_nat_diff)
  then have q: "0 \<le> q \<and> q \<le> 1"
    using n by (simp add: q_def pos_divide_le_eq)
  have "centrality_spec n conns sid = q * 50 + avg * 0.5"
    by (simp add: centrality_spec_def Let_def q_def avg_def xs_def)
  then show ?thesis using q avg by simp
qed

section \<open>Lemmas about the backlink analysis\<close>

lemma take_prefix_length: "take n xs = ys \<Longrightarrow> length ys = n \<Longrightarrow> n \<le> length xs"
  by auto

lemma backlinkPair_extends:
  assumes d: "distinct (map src_id seeds)" and i: "i < length seeds" and j: "j < length seeds"
    and r: "logExtended lg (Inr s)"
  shows "logExtended lg (backlinkPair seeds rnd now i j s)"
proof -
  have pre: "take (length lg) (sourceConnections (snd s)) = lg"
    and ok: "list_all (\<lambda>c. conn_sourceId c \<noteq> targetId c) (drop (length lg) (sourceConnections (snd s)))"
    using r by (simp_all add: logExtended_def)
  from pre have le: "length lg \<le> length (sourceConnections (snd s))"
    by (rule take_prefix_length) simp
  have ne: "src_id (seeds ! i) \<noteq> src_id (seeds ! j)" if "i \<noteq> j"
    using d i j that by (simp add: distinct_conv_nth)
  show ?thesis
    using pre ok le ne
    by (simp add: backlinkPair_def logExtended_def Let_def)
qed

lemma inner_loop_extends:
  assumes d: "distinct (map src_id seeds)" and i: "i < length seeds"
    and js: "\<forall>j \<in> set js. j < length seeds"
    and r: "logExtended lg r"
  shows "logExtended lg
           (fold (\<lambda>j r. case r of Inl e \<Rightarrow> Inl e | Inr s \<Rightarrow> backlinkPair seeds rnd now i j s) js r)"
  using js r
proof (induction js arbitrary: r)
  case Nil
  then show ?case by simp
next
  case (Cons j js)
  from Cons.prems(2) obtain s where s: "r = Inr s"
    by (cases r) (simp_all add: logExtended_def)
  have "logExtended lg (backlinkPair seeds rnd now i j s)"
    using d i Cons.prems s by (intro backlinkPair_extends) simp_all
  then show ?case
    using Cons.prems(1) s by (simp add: Cons.IH)
qed

lemma outer_loop_extends:
  assumes d: "distinct (map src_id seeds)"
    and "\<forall>i \<in> set is. i < length seeds"
    and "logExtended lg r"
  shows "logExtended lg
           (fold (\<lambda>i. fold (\<lambda>j r. case r of Inl e \<Rightarrow> Inl e
                                | Inr s \<Rightarrow> backlinkPair seeds rnd now i j s)
                  [0..<length seeds]) is r)"
  using assms(2,3)
proof (induction "is" arbitrary: r)
  case Nil
  then show ?case by simp
next
  case (Cons i "is")
  have "logExtended lg
          (fold (\<lambda>j r. case r of Inl e \<Rightarrow> Inl e | Inr s \<Rightarrow> backlinkPair seeds rnd now i j s)
             [0..<length seeds] r)"
    using d Cons.prems by (intro inner_loop_extends) simp_all
  then show ?case
    using Cons.prems(1) by (simp add: Cons.IH)
qed

section \<open>Lemmas about the feedback loop\<close>









lemma adjust_keeps_mentions:
  "brandMentions (adjustScoringBasedOnFeedback now w) = brandMentions w"
  by (simp add: adjustScoringBasedOnFeedback_def Let_def)








section \<open>Properties of the scoring engine\<close>

text \<open>
  C7. A brand with an empty mention set gets a defined result: total score 0,
  the components source authority, recency, frequency and context 0, sentiment
  50, confidence 0 and mention count 0 (the last mention date is the clock
  reading).
\<close>

theorem empty_mentions_score:
  "calculateBrandTrendScore seeds alg now brand [] =
     \<lparr>score_brandName = brand, totalScore = 0,
      scoreComponents = \<lparr>sourceAuthority = 0, recency = 0, frequency = 0,
                         sentiment_c = 50, context_c = 0\<rparr>,
      confidence = 0, mentions = 0, lastMentionDate = now\<rparr>"
  by (simp add: calculateBrandTrendScore_def)











section \<open>Properties of the source graph\<close>

text \<open>
  What \<^verbatim>\<open>calculateSourceCentrality\<close> stores for a seed source is the formula of
  the specification, and it lies in [0, 100] when the strengths do, there are
  at least two sources and the source has at most \<open>|Sources| - 1\<close> incoming
  connections.
\<close>

lemma centrality_formula:
  "sid \<in> src_id ` set seeds \<Longrightarrow>
   sourceCentrality (calculateSourceCentrality seeds conns alg) sid
     = Some (centrality_spec (length seeds) conns sid)"
  by (simp add: calculateSourceCentrality_lookup)

lemma centrality_range:
  assumes "sid \<in> src_id ` set seeds" "2 \<le> length seeds"
    and "length (incoming conns sid) \<le> length seeds - 1"
    and "\<forall>c \<in> set conns. 0 \<le> strength c \<and> strength c \<le> 100"
  shows "\<exists>v. sourceCentrality (calculateSourceCentrality seeds conns alg) sid = Some v
            \<and> 0 \<le> v \<and> v \<le> 100"
  using centrality_spec_range [OF assms(2-4)] assms(1)
  by (simp add: calculateSourceCentrality_lookup)

text \<open>
  C4. The formula part of the claim holds (lemma \<open>centrality_formula\<close>); the
  bound does not hold for every connection log with strengths in [0, 100]:
  after two runs of \<^verbatim>\<open>analyzeBacklinks\<close> the log holds sixty connections
  with strength 44, every source has ten incoming connections out of five
  possible, and its centrality is 122.
\<close>

theorem centrality_above_100:
  "length twoRuns = 60
   \<and> list_all (\<lambda>c. 0 \<le> strength c \<and> strength c \<le> 100) twoRuns
   \<and> sourceCentrality (calculateSourceCentrality SEED_SOURCES twoRuns initialAlgorithm) ''ssense''
       = Some 122"
  by code_simp

text \<open>
  C3 (as amended). When the backlink analysis comes to the pair of a source
  with itself it skips the pair: no error is raised, and the connection log
  (and the random stream) are unchanged. With distinct seed ids a run of
  \<^verbatim>\<open>analyzeBacklinks\<close> returns normally, keeps the log it started from as a
  prefix and appends only connections whose sourceId differs from their
  targetId.
\<close>

theorem self_pair_skipped:
  "backlinkPair seeds rnd now i i st = Inr st
   \<and> (distinct (map src_id seeds) \<longrightarrow>
        (\<exists>k' svc'. analyzeBacklinks seeds rnd now (k, svc) = Inr (k', svc')
           \<and> take (length (sourceConnections svc)) (sourceConnections svc') = sourceConnections svc
           \<and> list_all (\<lambda>c. conn_sourceId c \<noteq> targetId c)
                (drop (length (sourceConnections svc)) (sourceConnections svc'))))"
proof (intro conjI impI)
  show "backlinkPair seeds rnd now i i st = Inr st"
    by (simp add: backlinkPair_def)
  assume d: "distinct (map src_id seeds)"
  have "logExtended (sourceConnections svc) (Inr (k, svc))"
    by (simp add: logExtended_def)
  then have "logExtended (sourceConnections svc) (analyzeBacklinks seeds rnd now (k, svc))"
    unfolding analyzeBacklinks_def using d by (intro outer_loop_extends) simp_all
  then show "\<exists>k' svc'. analyzeBacklinks seeds rnd now (k, svc) = Inr (k', svc')
           \<and> take (length (sourceConnections svc)) (sourceConnections svc') = sourceConnections svc
           \<and> list_all (\<lambda>c. conn_sourceId c \<noteq> targetId c)
                (drop (length (sourceConnections svc)) (sourceConnections svc'))"
    by (cases "analyzeBacklinks seeds rnd now (k, svc)") (auto simp: logExtended_def)
qed

theorem self_pair_skipped_witness:
  "distinct (map src_id SEED_SOURCES)
   \<and> backlinkPair SEED_SOURCES exampleRandom 0 1 1 (0, \<lparr>sourceConnections = []\<rparr>)
       = Inr (0, \<lparr>sourceConnections = []\<rparr>)
   \<and> (\<exists>k' svc'. analyzeBacklinks SEED_SOURCES exampleRandom 0 (0, \<lparr>sourceConnections = []\<rparr>) = Inr (k', svc')
           \<and> list_all (\<lambda>c. conn_sourceId c \<noteq> targetId c) (sourceConnections svc'))"
proof -
  have h: "distinct (map src_id SEED_SOURCES)"
    by (simp add: SEED_SOURCES_def)
  from self_pair_skipped [of SEED_SOURCES exampleRandom 0 1 "(0, \<lparr>sourceConnections = []\<rparr>)" 0 "\<lparr>sourceConnections = []\<rparr>"] h
  show ?thesis by simp
qed

text \<open>
  The claim as stated fails: the attempt for a source paired with itself does
  not end in a \<open>ValidationError\<close>; the source has no such error, the pair is
  passed over by \<^verbatim>\<open>continue\<close>.
\<close>

theorem self_pair_no_error:
  "src_id (SEED_SOURCES ! 1) = src_id (SEED_SOURCES ! 1)
   \<and> backlinkPair SEED_SOURCES exampleRandom 0 1 1 (0, \<lparr>sourceConnections = []\<rparr>)
       \<noteq> Inl ValidationError"
  by (simp add: backlinkPair_def)

section \<open>Properties of the feedback loop\<close>









end
